theory Spec2Isabelle
  imports Main "HOL-Library.Word"
begin

section \<open>Machine integers and errors\<close>

text \<open>
  Go's \<^verbatim>\<open>int64\<close>, \<^verbatim>\<open>uint64\<close> and \<^verbatim>\<open>uint32\<close> are words of that width. An
  \<^verbatim>\<open>int64\<close> is read through \<open>sint\<close> (two's complement), the unsigned types through
  \<open>unat\<close>. The conversion \<^verbatim>\<open>xdr.Uint64(x)\<close> of an \<^verbatim>\<open>int64\<close> keeps the bits, so it is
  the identity on \<open>64 word\<close>.
\<close>

type_synonym int64 = "64 word"
type_synonym uint64 = "64 word"
type_synonym uint32 = "32 word"

text \<open>
  Errors are values. \<open>New m\<close> is \<^verbatim>\<open>errors.New(m)\<close>, \<open>Wrap e m\<close> is
  \<^verbatim>\<open>errors.Wrap(e, m)\<close> for a non-nil \<open>e\<close>; \<open>Error\<close> is the message the Go error
  prints (\<^verbatim>\<open>msg + ": " + cause\<close>). A function that returns \<^verbatim>\<open>(value, error)\<close> returns
  \<open>error + value\<close> here, \<open>Inl\<close> holding the non-nil error; a method that returns only
  \<^verbatim>\<open>error\<close> returns \<open>error option\<close>, \<open>None\<close> being \<^verbatim>\<open>nil\<close>.
\<close>

datatype error = New string | Wrap error string

fun Error :: "error \<Rightarrow> string" where
  "Error (New m) = m"
| "Error (Wrap e m) = m @ '': '' @ Error e"

section \<open>Timebounds\<close>

definition TimeoutInfinite :: int64 where
  "TimeoutInfinite = 0"

record Timebounds =
  tb_MinTime :: int64
  tb_MaxTime :: int64
  wasBuilt :: bool

definition err_not_constructed :: error where
  "err_not_constructed =
     New ''timebounds must be constructed using SetTimebounds(), SetTimeout(), or SetNoTimeout()''"

definition err_minTime_negative :: error where
  "err_minTime_negative = New ''invalid timebound: minTime cannot be negative''"

definition err_maxTime_negative :: error where
  "err_maxTime_negative = New ''invalid timebound: maxTime cannot be negative''"

definition err_maxTime_lt_minTime :: error where
  "err_maxTime_lt_minTime = New ''invalid timebound: maxTime < minTime''"

definition Validate :: "Timebounds \<Rightarrow> error option" where
  "Validate tb =
     (if \<not> wasBuilt tb then Some err_not_constructed
      else if sint (tb_MinTime tb) < 0 then Some err_minTime_negative
      else if sint (tb_MaxTime tb) < 0 then Some err_maxTime_negative
      else if tb_MaxTime tb \<noteq> TimeoutInfinite \<and> sint (tb_MaxTime tb) < sint (tb_MinTime tb)
        then Some err_maxTime_lt_minTime
      else None)"

definition SetTimebounds :: "int64 \<Rightarrow> int64 \<Rightarrow> Timebounds" where
  "SetTimebounds minTime maxTime =
     \<lparr>tb_MinTime = minTime, tb_MaxTime = maxTime, wasBuilt = True\<rparr>"

text \<open>
  \<^verbatim>\<open>SetTimeout\<close> reads the wall clock; \<open>now\<close> is \<^verbatim>\<open>time.Now().UTC().Unix()\<close> at the call.
  The addition is Go's \<^verbatim>\<open>int64\<close> addition, which wraps.
\<close>

definition SetTimeout :: "int64 \<Rightarrow> int64 \<Rightarrow> int64 \<Rightarrow> Timebounds" where
  "SetTimeout now minTime timeout =
     \<lparr>tb_MinTime = minTime, tb_MaxTime = now + timeout, wasBuilt = True\<rparr>"

definition SetNoTimeout :: "int64 \<Rightarrow> Timebounds" where
  "SetNoTimeout minTime =
     \<lparr>tb_MinTime = minTime, tb_MaxTime = TimeoutInfinite, wasBuilt = True\<rparr>"

section \<open>The wire (XDR) structures\<close>

text \<open>
  The \<^verbatim>\<open>xdr\<close> package is not part of the sources at hand. Its structures are records
  with the fields the builder reads and writes; the values it keeps opaque (account ids,
  assets, operation bodies, memos) are type parameters: \<open>'aid\<close> for
  \<^verbatim>\<open>xdr.AccountId\<close>, \<open>'xa\<close> for \<^verbatim>\<open>xdr.Asset\<close>, \<open>'ata\<close> for
  \<^verbatim>\<open>xdr.AllowTrustOpAsset\<close>, \<open>'body\<close> for \<^verbatim>\<open>xdr.OperationBody\<close> and \<open>'memo\<close> for
  \<^verbatim>\<open>xdr.Memo\<close>. A nil pointer is \<open>None\<close>.
\<close>

record ('aid, 'ata) AllowTrustOp =
  op_Trustor :: 'aid
  op_Asset :: 'ata
  op_Authorize :: bool

record ('aid, 'body) xdr_Operation =
  op_SourceAccount :: "'aid option"
  Body :: 'body

record xdr_TimeBounds =
  xdr_MinTime :: uint64
  xdr_MaxTime :: uint64

record ('aid, 'body, 'memo) xdr_Transaction =
  xdr_SourceAccount :: 'aid
  Fee :: uint32
  SeqNum :: int64
  TimeBounds :: "xdr_TimeBounds option"
  xdr_Memo :: 'memo
  xdr_Operations :: "('aid, 'body) xdr_Operation list"

record DecoratedSignature =
  Hint :: "8 word list"
  Signature :: "8 word list"

record ('aid, 'body, 'memo) TransactionEnvelope =
  Tx :: "('aid, 'body, 'memo) xdr_Transaction"
  Signatures :: "DecoratedSignature list"

datatype OperationType = OperationTypeAllowTrust

text \<open>
  The functions of the \<^verbatim>\<open>xdr\<close> package that the builder calls are parameters, gathered
  in one record. \<open>SetAddress\<close> is \<^verbatim>\<open>(*AccountId).SetAddress\<close>: it decodes an address
  and, when that succeeds, overwrites its receiver with the result.
\<close>

record ('aid, 'xa, 'ata, 'body) xdr_pkg =
  SetAddress :: "string \<Rightarrow> error + 'aid"
  ToAllowTrustOpAsset :: "'xa \<Rightarrow> string \<Rightarrow> error + 'ata"
  NewOperationBody :: "OperationType \<Rightarrow> ('aid, 'ata) AllowTrustOp \<Rightarrow> error + 'body"

section \<open>Operations\<close>

text \<open>
  \<^verbatim>\<open>Asset\<close> is an interface with three methods without arguments; a value of it is
  the record of what they return.
\<close>

record 'xa Asset =
  IsNative :: bool
  ToXDR :: "error + 'xa"
  GetCode :: string

record 'xa AllowTrust =
  Trustor :: string
  Type :: "'xa Asset"
  Authorize :: bool

definition AllowTrust_BuildXDR ::
  "('aid, 'xa, 'ata, 'body) xdr_pkg \<Rightarrow> 'xa AllowTrust \<Rightarrow> error + ('aid, 'body) xdr_Operation" where
  "AllowTrust_BuildXDR lib at =
     (case SetAddress lib (Trustor at) of
        Inl err \<Rightarrow> Inl (Wrap err ''Failed to set trustor address'')
      | Inr trustor \<Rightarrow>
          if IsNative (Type at)
          then Inl (New ''Trustline doesn't exist for a native (XLM) asset'')
          else
            (case ToXDR (Type at) of
               Inl err \<Rightarrow> Inl (Wrap err ''Can't convert asset for trustline to XDR'')
             | Inr xdrAsset \<Rightarrow>
                 (case ToAllowTrustOpAsset lib xdrAsset (GetCode (Type at)) of
                    Inl err \<Rightarrow>
                      Inl (Wrap err ''Can't convert asset for trustline to allow trust asset type'')
                  | Inr asset \<Rightarrow>
                      (case NewOperationBody lib OperationTypeAllowTrust
                              \<lparr>op_Trustor = trustor, op_Asset = asset,
                               op_Authorize = Authorize at\<rparr> of
                         Inl err \<Rightarrow> Inl (Wrap err ''Failed to build XDR OperationBody'')
                       | Inr body \<Rightarrow> Inr \<lparr>op_SourceAccount = None, Body = body\<rparr>))))"

text \<open>
  \<^verbatim>\<open>Operation\<close> is the interface with the method \<^verbatim>\<open>BuildXDR\<close>. The sources hold one
  implementation, \<^verbatim>\<open>*AllowTrust\<close>; any other one is given by the name of its Go type
  (what \<^verbatim>\<open>%T\<close> prints) and by what its \<^verbatim>\<open>BuildXDR\<close> returns.
\<close>

datatype ('xa, 'aid, 'body) Operation =
    AllowTrustOperation "'xa AllowTrust"
  | OtherOperation string "error + ('aid, 'body) xdr_Operation"

fun BuildXDR ::
  "('aid, 'xa, 'ata, 'body) xdr_pkg \<Rightarrow> ('xa, 'aid, 'body) Operation
     \<Rightarrow> error + ('aid, 'body) xdr_Operation" where
  "BuildXDR lib (AllowTrustOperation at) = AllowTrust_BuildXDR lib at"
| "BuildXDR lib (OtherOperation T r) = r"

fun typeName :: "('xa, 'aid, 'body) Operation \<Rightarrow> string" where
  "typeName (AllowTrustOperation at) = ''*txnbuild.AllowTrust''"
| "typeName (OtherOperation T r) = T"

section \<open>Transactions\<close>

text \<open>
  \<^verbatim>\<open>Account\<close> is an interface whose second method changes the account: a value of it
  is the state \<open>self\<close> of the account with its two methods. \<^verbatim>\<open>Memo\<close> is an interface
  of which the builder calls \<^verbatim>\<open>ToXDR\<close> only.
\<close>

record 's Account =
  self :: 's
  GetAccountID :: "'s \<Rightarrow> string"
  IncrementSequenceNumber :: "'s \<Rightarrow> 's \<times> (error + int64)"

record 'memo Memo =
  memo_ToXDR :: "error + 'memo"

record ('s, 'xa, 'aid, 'body, 'memo) Transaction =
  SourceAccount :: "'s Account"
  Operations :: "('xa, 'aid, 'body) Operation list"
  xdrTransaction :: "('aid, 'body, 'memo) xdr_Transaction"
  BaseFee :: uint32
  Memo :: "'memo Memo option"
  MinTime :: int64
  MaxTime :: int64
  Network :: string
  xdrEnvelope :: "('aid, 'body, 'memo) TransactionEnvelope option"

text \<open>
  \<^verbatim>\<open>xdr.Uint32(int(tx.BaseFee) * len(ops))\<close>: the product is taken in Go's \<^verbatim>\<open>int\<close>
  (64 bits) and cut to 32 bits by the conversion.
\<close>

definition Uint32_product :: "uint32 \<Rightarrow> nat \<Rightarrow> uint32" where
  "Uint32_product baseFee n = ucast ((ucast baseFee :: 64 word) * word_of_nat n)"

definition SetDefaultFee ::
  "('s, 'xa, 'aid, 'body, 'memo) Transaction \<Rightarrow> ('s, 'xa, 'aid, 'body, 'memo) Transaction" where
  "SetDefaultFee tx =
     (let DefaultBaseFee = 100;
          tx1 = (if BaseFee tx = 0 then tx\<lparr>BaseFee := DefaultBaseFee\<rparr> else tx)
      in if Fee (xdrTransaction tx1) = 0
         then tx1\<lparr>xdrTransaction := (xdrTransaction tx1)
                \<lparr>Fee := Uint32_product (BaseFee tx1)
                          (length (xdr_Operations (xdrTransaction tx1)))\<rparr>\<rparr>
         else tx1)"

text \<open>
  The loop of \<^verbatim>\<open>Build\<close> over \<^verbatim>\<open>tx.Operations\<close>: \<open>staged\<close> is
  \<^verbatim>\<open>tx.xdrTransaction.Operations\<close>. It returns the staged list as the loop leaves it
  and the error of the first conversion that fails.
\<close>

fun buildOperations ::
  "('aid, 'xa, 'ata, 'body) xdr_pkg \<Rightarrow> ('xa, 'aid, 'body) Operation list
     \<Rightarrow> ('aid, 'body) xdr_Operation list
     \<Rightarrow> ('aid, 'body) xdr_Operation list \<times> error option" where
  "buildOperations lib [] staged = (staged, None)"
| "buildOperations lib (op # ops) staged =
     (case BuildXDR lib op of
        Inl err \<Rightarrow> (staged, Some (Wrap err (''Failed to build operation '' @ typeName op)))
      | Inr xdrOperation \<Rightarrow> buildOperations lib ops (staged @ [xdrOperation]))"

text \<open>
  \<^verbatim>\<open>Build\<close> changes the transaction in place and returns an error: the model returns
  the transaction as \<^verbatim>\<open>Build\<close> leaves it, also when it fails, and the error.
  \<open>xtx\<close> is \<^verbatim>\<open>tx.xdrTransaction\<close> as the steps of \<^verbatim>\<open>Build\<close> change it; the
  fields of \<^verbatim>\<open>tx\<close> that \<^verbatim>\<open>Build\<close> only reads are read from \<open>tx\<close>. The result of
  \<^verbatim>\<open>SetAddress\<close> on the source account is dropped by the source. The source account
  and the operations are taken to be non-nil (on a nil one \<^verbatim>\<open>Build\<close> panics).
\<close>

definition Build ::
  "('aid, 'xa, 'ata, 'body) xdr_pkg \<Rightarrow> ('s, 'xa, 'aid, 'body, 'memo) Transaction
     \<Rightarrow> ('s, 'xa, 'aid, 'body, 'memo) Transaction \<times> error option" where
  "Build lib tx =
     (let acct = SourceAccount tx;
          xtx0 = xdrTransaction tx;
          xtx1 = (case SetAddress lib (GetAccountID acct (self acct)) of
                    Inl err \<Rightarrow> xtx0
                  | Inr a \<Rightarrow> xtx0\<lparr>xdr_SourceAccount := a\<rparr>);
          (s, r) = IncrementSequenceNumber acct (self acct);
          tx1 = tx\<lparr>SourceAccount := acct\<lparr>self := s\<rparr>\<rparr>
      in case r of
           Inl err \<Rightarrow>
             (tx1\<lparr>xdrTransaction := xtx1\<rparr>, Some (Wrap err ''Failed to parse sequence number''))
         | Inr seqnum \<Rightarrow>
             (let xtx2 = xtx1\<lparr>SeqNum := seqnum\<rparr>;
                  (staged, operr) = buildOperations lib (Operations tx) (xdr_Operations xtx2);
                  xtx3 = xtx2\<lparr>xdr_Operations := staged\<rparr>
              in case operr of
                   Some err \<Rightarrow> (tx1\<lparr>xdrTransaction := xtx3\<rparr>, Some err)
                 | None \<Rightarrow>
                     (let xtx4 =
                            (if 0 < sint (MinTime tx) \<or> 0 < sint (MaxTime tx)
                             then xtx3\<lparr>TimeBounds :=
                                         Some \<lparr>xdr_MinTime = MinTime tx,
                                               xdr_MaxTime = MaxTime tx\<rparr>\<rparr>
                             else xtx3)
                      in case Memo tx of
                           None \<Rightarrow> (SetDefaultFee (tx1\<lparr>xdrTransaction := xtx4\<rparr>), None)
                         | Some m \<Rightarrow>
                             (case memo_ToXDR m of
                                Inl err \<Rightarrow>
                                  (tx1\<lparr>xdrTransaction := xtx4\<rparr>,
                                   Some (Wrap err ''Couldn't build memo XDR''))
                              | Inr xdrMemo \<Rightarrow>
                                  (SetDefaultFee
                                     (tx1\<lparr>xdrTransaction := xtx4\<lparr>xdr_Memo := xdrMemo\<rparr>\<rparr>),
                                   None)))))"

section \<open>Signing\<close>

text \<open>
  \<^verbatim>\<open>network.HashTransaction\<close> and \<^verbatim>\<open>(*keypair.Full).SignDecorated\<close> are parameters;
  \<open>'kp\<close> is the key pair.
\<close>

record ('aid, 'body, 'memo, 'kp) crypto_pkg =
  HashTransaction :: "('aid, 'body, 'memo) xdr_Transaction \<Rightarrow> string \<Rightarrow> error + 8 word list"
  SignDecorated :: "'kp \<Rightarrow> 8 word list \<Rightarrow> error + DecoratedSignature"

definition Hash ::
  "('aid, 'body, 'memo, 'kp) crypto_pkg \<Rightarrow> ('s, 'xa, 'aid, 'body, 'memo) Transaction
     \<Rightarrow> error + 8 word list" where
  "Hash c tx = HashTransaction c (xdrTransaction tx) (Network tx)"

definition Sign ::
  "('aid, 'body, 'memo, 'kp) crypto_pkg \<Rightarrow> 'kp \<Rightarrow> ('s, 'xa, 'aid, 'body, 'memo) Transaction
     \<Rightarrow> ('s, 'xa, 'aid, 'body, 'memo) Transaction \<times> error option" where
  "Sign c kp tx =
     (let env = (case xdrEnvelope tx of
                   None \<Rightarrow> \<lparr>Tx = xdrTransaction tx, Signatures = []\<rparr>
                 | Some e \<Rightarrow> e);
          tx1 = tx\<lparr>xdrEnvelope := Some env\<rparr>
      in case Hash c tx1 of
           Inl err \<Rightarrow> (tx1, Some (Wrap err ''Failed to hash transaction''))
         | Inr hash \<Rightarrow>
             (case SignDecorated c kp hash of
                Inl err \<Rightarrow> (tx1, Some (Wrap err ''Failed to sign transaction''))
              | Inr sig \<Rightarrow>
                  (tx1\<lparr>xdrEnvelope := Some (env\<lparr>Signatures := Signatures env @ [sig]\<rparr>)\<rparr>,
                   None)))"

text \<open>
  The signatures a transaction carries: none before the envelope exists.
\<close>

definition signatures :: "('s, 'xa, 'aid, 'body, 'memo) Transaction \<Rightarrow> DecoratedSignature list" where
  "signatures tx = (case xdrEnvelope tx of None \<Rightarrow> [] | Some env \<Rightarrow> Signatures env)"

section \<open>Example values\<close>

text \<open>
  Concrete values for the parameters, on which the theorems below are instantiated. In
  \<open>example_xdr\<close> an account id is its address, an address is valid when it is not empty,
  an allow-trust asset is an asset code of 1 to 12 characters, and an operation body is
  the \<^verbatim>\<open>AllowTrustOp\<close> itself. The account hands out the successor of its sequence
  number.
\<close>

definition example_xdr :: "(string, string, string, (string, string) AllowTrustOp) xdr_pkg" where
  "example_xdr =
     \<lparr>SetAddress = (\<lambda>address. if address = [] then Inl (New ''invalid address'')
                               else Inr address),
      ToAllowTrustOpAsset = (\<lambda>xdrAsset code.
         if 1 \<le> length code \<and> length code \<le> 12 then Inr code
         else Inl (New ''Asset code length is invalid'')),
      NewOperationBody = (\<lambda>opType v. Inr v)\<rparr>"

definition example_account :: "int64 Account" where
  "example_account =
     \<lparr>self = 9605939170639897,
      GetAccountID = (\<lambda>s. ''GCCOBXW2XQNUSL467IEILE6MMCNRR66SSVL4YQADUNYYNUVREF3FIV2Z''),
      IncrementSequenceNumber = (\<lambda>s. (s + 1, Inr (s + 1)))\<rparr>"

definition native_asset :: "string Asset" where
  "native_asset = \<lparr>IsNative = True, ToXDR = Inr ''native'', GetCode = []\<rparr>"

definition credit_asset :: "string \<Rightarrow> string Asset" where
  "credit_asset code = \<lparr>IsNative = False, ToXDR = Inr code, GetCode = code\<rparr>"

text \<open>
  An asset that is not native and whose \<^verbatim>\<open>ToXDR\<close> fails, as that of an issued asset
  with an ill-formed code or issuer does.
\<close>

definition unconvertible_asset :: "string Asset" where
  "unconvertible_asset =
     \<lparr>IsNative = False, ToXDR = Inl (New ''invalid asset code''),
      GetCode = ''ABCDEFGHIJKLMNOP''\<rparr>"

definition example_trustor :: string where
  "example_trustor = ''GB7BDSZU2Y27LYNLALKKALB52WS2IZWYBDGY6EQBLEED3TJOCVMZRH7H''"

definition allow_trust ::
  "string Asset \<Rightarrow> bool \<Rightarrow> (string, string, (string, string) AllowTrustOp) Operation" where
  "allow_trust asset authorize =
     AllowTrustOperation \<lparr>Trustor = example_trustor, Type = asset, Authorize = authorize\<rparr>"

text \<open>
  A transaction as a caller outside the package writes it: the exported fields are given,
  \<^verbatim>\<open>xdrTransaction\<close> and \<^verbatim>\<open>xdrEnvelope\<close> hold Go's zero values.
\<close>

definition example_tx ::
  "uint32 \<Rightarrow> int64 \<Rightarrow> int64 \<Rightarrow> (string, string, (string, string) AllowTrustOp) Operation list
     \<Rightarrow> (int64, string, string, (string, string) AllowTrustOp, string) Transaction" where
  "example_tx baseFee minTime maxTime ops =
     \<lparr>SourceAccount = example_account,
      Operations = ops,
      xdrTransaction =
        \<lparr>xdr_SourceAccount = [], Fee = 0, SeqNum = 0, TimeBounds = None, xdr_Memo = [],
         xdr_Operations = []\<rparr>,
      BaseFee = baseFee,
      Memo = None,
      MinTime = minTime,
      MaxTime = maxTime,
      Network = ''Test SDF Network ; September 2015'',
      xdrEnvelope = None\<rparr>"

definition example_crypto ::
  "(string, (string, string) AllowTrustOp, string, 8 word list) crypto_pkg" where
  "example_crypto =
     \<lparr>HashTransaction = (\<lambda>xtx network. Inr [word_of_nat (length (xdr_Operations xtx))]),
      SignDecorated = (\<lambda>kp hash. Inr \<lparr>Hint = take 4 kp, Signature = kp @ hash\<rparr>)\<rparr>"

section \<open>Auxiliary facts\<close>

lemmas example_defs = example_xdr_def example_account_def credit_asset_def
  example_trustor_def allow_trust_def example_tx_def

lemmas Build_eval = Build_def Let_def AllowTrust_BuildXDR_def SetDefaultFee_def
  Uint32_product_def

subsection \<open>The fee product\<close>

lemma unat_Uint32_product: "unat (Uint32_product b n) = (unat b * n) mod 2 ^ 32"
proof -
  have d: "(2::nat) ^ 32 dvd 2 ^ 64" by (simp add: le_imp_power_dvd)
  have "unat b < 2 ^ 32" using unsigned_less [of b] by simp
  then have "unat b < 2 ^ 64" by simp
  then have u: "unat (ucast b :: 64 word) = unat b"
    by (simp add: unsigned_ucast_eq take_bit_nat_eq_self)
  have "unat (Uint32_product b n) = ((unat b * (n mod 2 ^ 64)) mod 2 ^ 64) mod 2 ^ 32"
    unfolding Uint32_product_def
    by (simp add: unsigned_ucast_eq [where 'c=32] take_bit_eq_mod unat_word_ariths unat_of_nat u)
  also have "\<dots> = (unat b * (n mod 2 ^ 64)) mod 2 ^ 32"
    using d by (simp add: mod_mod_cancel)
  also have "\<dots> = (unat b * ((n mod 2 ^ 64) mod 2 ^ 32)) mod 2 ^ 32"
    by (simp add: mod_mult_right_eq)
  also have "\<dots> = (unat b * (n mod 2 ^ 32)) mod 2 ^ 32"
    using d by (simp add: mod_mod_cancel)
  also have "\<dots> = (unat b * n) mod 2 ^ 32"
    by (simp add: mod_mult_right_eq)
  finally show ?thesis .
qed

subsection \<open>The loop over the operations\<close>

lemma buildOperations_success:
  "map (BuildXDR lib) ops = map Inr xs \<Longrightarrow> buildOperations lib ops staged = (staged @ xs, None)"
  by (induction ops arbitrary: staged xs) auto

lemma buildOperations_NoneD:
  "buildOperations lib ops staged = (out, None) \<Longrightarrow>
     \<exists>xs. out = staged @ xs \<and> map (BuildXDR lib) ops = map Inr xs"
proof (induction ops arbitrary: staged)
  case Nil
  then show ?case by simp
next
  case (Cons op ops)
  then show ?case
    by (cases "BuildXDR lib op") fastforce+
qed

lemma buildOperations_failure:
  "map (BuildXDR lib) pre = map Inr xs \<Longrightarrow> BuildXDR lib op = Inl e \<Longrightarrow>
     buildOperations lib (pre @ op # rest) staged =
       (staged @ xs, Some (Wrap e (''Failed to build operation '' @ typeName op)))"
  by (induction pre arbitrary: staged xs) auto

lemma all_converted:
  "\<forall>op \<in> set ops. \<not> isl (BuildXDR lib op) \<Longrightarrow>
     map (BuildXDR lib) ops = map Inr (map (\<lambda>op. projr (BuildXDR lib op)) ops)"
  by (induction ops) simp_all

subsection \<open>What the fee policy leaves alone\<close>

lemma SetDefaultFee_xdr [simp]:
  "xdr_Operations (xdrTransaction (SetDefaultFee tx)) = xdr_Operations (xdrTransaction tx)"
  "SeqNum (xdrTransaction (SetDefaultFee tx)) = SeqNum (xdrTransaction tx)"
  "TimeBounds (xdrTransaction (SetDefaultFee tx)) = TimeBounds (xdrTransaction tx)"
  "xdrEnvelope (SetDefaultFee tx) = xdrEnvelope tx"
  by (simp_all add: SetDefaultFee_def Let_def)

lemma SetDefaultFee_Fee:
  "Fee (xdrTransaction (SetDefaultFee tx)) =
     (if Fee (xdrTransaction tx) = 0
      then Uint32_product (if BaseFee tx = 0 then 100 else BaseFee tx)
             (length (xdr_Operations (xdrTransaction tx)))
      else Fee (xdrTransaction tx))"
  by (simp add: SetDefaultFee_def Let_def)

lemma SetDefaultFee_BaseFee:
  "BaseFee (SetDefaultFee tx) = (if BaseFee tx = 0 then 100 else BaseFee tx)"
  by (simp add: SetDefaultFee_def Let_def)

subsection \<open>A successful build\<close>

lemma Build_NoneD:
  assumes "Build lib tx = (tx', None)"
  obtains seqnum xs where
    "snd (IncrementSequenceNumber (SourceAccount tx) (self (SourceAccount tx))) = Inr seqnum"
    "map (BuildXDR lib) (Operations tx) = map Inr xs"
    "case Memo tx of None \<Rightarrow> True | Some m \<Rightarrow> \<not> isl (memo_ToXDR m)"
    "SeqNum (xdrTransaction tx') = seqnum"
    "xdr_Operations (xdrTransaction tx') = xdr_Operations (xdrTransaction tx) @ xs"
    "TimeBounds (xdrTransaction tx') =
       (if 0 < sint (MinTime tx) \<or> 0 < sint (MaxTime tx)
        then Some \<lparr>xdr_MinTime = MinTime tx, xdr_MaxTime = MaxTime tx\<rparr>
        else TimeBounds (xdrTransaction tx))"
    "Fee (xdrTransaction tx') =
       (if Fee (xdrTransaction tx) = 0
        then Uint32_product (if BaseFee tx = 0 then 100 else BaseFee tx)
               (length (xdr_Operations (xdrTransaction tx) @ xs))
        else Fee (xdrTransaction tx))"
    "BaseFee tx' = (if BaseFee tx = 0 then 100 else BaseFee tx)"
proof -
  obtain s r where incr:
    "IncrementSequenceNumber (SourceAccount tx) (self (SourceAccount tx)) = (s, r)"
    by (cases "IncrementSequenceNumber (SourceAccount tx) (self (SourceAccount tx))")
  obtain staged operr where ops:
    "buildOperations lib (Operations tx) (xdr_Operations (xdrTransaction tx)) = (staged, operr)"
    by (cases "buildOperations lib (Operations tx) (xdr_Operations (xdrTransaction tx))")
  from assms incr obtain seqnum where r: "r = Inr seqnum"
    by (cases r) (simp_all add: Build_def Let_def)
  from assms incr r ops have operr: "operr = None"
    by (cases operr) (simp_all add: Build_def Let_def split: sum.splits)
  from ops operr obtain xs where xs: "staged = xdr_Operations (xdrTransaction tx) @ xs"
    "map (BuildXDR lib) (Operations tx) = map Inr xs"
    using buildOperations_NoneD by blast
  note unfold = Build_def Let_def SetDefaultFee_Fee SetDefaultFee_BaseFee
  from assms incr r ops operr have memo:
    "case Memo tx of None \<Rightarrow> True | Some m \<Rightarrow> \<not> isl (memo_ToXDR m)"
    by (simp add: unfold split: sum.splits option.splits)
  from assms incr r ops operr have seq: "SeqNum (xdrTransaction tx') = seqnum"
    by (auto simp add: unfold split: sum.splits option.splits if_splits)
  from assms incr r ops operr have st: "xdr_Operations (xdrTransaction tx') = staged"
    by (auto simp add: unfold split: sum.splits option.splits if_splits)
  from assms incr r ops operr have tb: "TimeBounds (xdrTransaction tx') =
       (if 0 < sint (MinTime tx) \<or> 0 < sint (MaxTime tx)
        then Some \<lparr>xdr_MinTime = MinTime tx, xdr_MaxTime = MaxTime tx\<rparr>
        else TimeBounds (xdrTransaction tx))"
    by (auto simp add: unfold split: sum.splits option.splits if_splits)
  from assms incr r ops operr have fee: "Fee (xdrTransaction tx') =
       (if Fee (xdrTransaction tx) = 0
        then Uint32_product (if BaseFee tx = 0 then 100 else BaseFee tx) (length staged)
        else Fee (xdrTransaction tx))"
    by (auto simp add: unfold split: sum.splits option.splits if_splits)
  from assms incr r ops operr have
    base: "BaseFee tx' = (if BaseFee tx = 0 then 100 else BaseFee tx)"
    by (auto simp add: unfold split: sum.splits option.splits if_splits)
  show thesis
    by (rule that [of seqnum xs]) (use incr r xs memo seq st tb fee base in simp_all)
qed

lemma Build_success:
  assumes "snd (IncrementSequenceNumber (SourceAccount tx) (self (SourceAccount tx))) = Inr seqnum"
      and "map (BuildXDR lib) (Operations tx) = map Inr xs"
      and "case Memo tx of None \<Rightarrow> True | Some m \<Rightarrow> \<not> isl (memo_ToXDR m)"
  shows "snd (Build lib tx) = None"
  using assms(1,3) buildOperations_success [OF assms(2)]
  by (auto simp: Build_def Let_def split: prod.splits sum.splits option.splits)

lemma Build_error:
  "snd (Build lib tx) =
     (case snd (IncrementSequenceNumber (SourceAccount tx) (self (SourceAccount tx))) of
        Inl err \<Rightarrow> Some (Wrap err ''Failed to parse sequence number'')
      | Inr seqnum \<Rightarrow>
          (case snd (buildOperations lib (Operations tx) (xdr_Operations (xdrTransaction tx))) of
             Some err \<Rightarrow> Some err
           | None \<Rightarrow>
               (case Memo tx of
                  None \<Rightarrow> None
                | Some m \<Rightarrow>
                    (case memo_ToXDR m of
                       Inl err \<Rightarrow> Some (Wrap err ''Couldn't build memo XDR'')
                     | Inr xdrMemo \<Rightarrow> None))))"
proof -
  obtain s r where incr:
    "IncrementSequenceNumber (SourceAccount tx) (self (SourceAccount tx)) = (s, r)"
    by (cases "IncrementSequenceNumber (SourceAccount tx) (self (SourceAccount tx))")
  obtain staged operr where ops:
    "buildOperations lib (Operations tx) (xdr_Operations (xdrTransaction tx)) = (staged, operr)"
    by (cases "buildOperations lib (Operations tx) (xdr_Operations (xdrTransaction tx))")
  show ?thesis
  proof (cases r)
    case (Inl err)
    with incr show ?thesis by (simp add: Build_def Let_def)
  next
    case (Inr seqnum)
    show ?thesis
    proof (cases operr)
      case (Some err)
      with incr Inr ops show ?thesis by (simp add: Build_def Let_def split: sum.splits)
    next
      case None
      with incr Inr ops show ?thesis
        by (simp add: Build_def Let_def split: sum.splits option.splits)
    qed
  qed
qed

lemma Build_xdrEnvelope: "xdrEnvelope (fst (Build lib tx)) = xdrEnvelope tx"
  by (simp add: Build_def Let_def split: prod.splits sum.splits option.splits)

subsection \<open>Signing\<close>

lemma Sign_xdrTransaction: "xdrTransaction (fst (Sign c kp tx)) = xdrTransaction tx"
  by (simp add: Sign_def Let_def split: sum.splits option.splits)


lemma Sign_NoneD:
  assumes "Sign c kp tx = (tx', None)"
  obtains h sig where "Hash c tx = Inr h" "SignDecorated c kp h = Inr sig"
    "signatures tx' = signatures tx @ [sig]" "xdrTransaction tx' = xdrTransaction tx"
    "Network tx' = Network tx"
  using assms
  by (auto simp: Sign_def Let_def Hash_def signatures_def split: sum.splits option.splits)

section \<open>Timebounds validation\<close>

text \<open>
  Claim C4. \<^verbatim>\<open>Validate\<close> fails with the "not constructed" error on a Timebounds that no
  factory produced, whatever its numbers are; on one a factory produced it fails with the
  minTime-negative error if \<open>min < 0\<close>, otherwise with the maxTime-negative error if
  \<open>max < 0\<close>, otherwise with the maxTime-less-than-minTime error if \<open>max \<noteq> 0\<close> and
  \<open>max < min\<close>, and otherwise it succeeds: a factory-made Timebounds with \<open>min \<ge> 0\<close> and
  (\<open>max = 0\<close> or \<open>max \<ge> min\<close>) is valid. The values the three factories produce are
  exactly those with \<open>wasBuilt\<close> set.
\<close>

theorem Validate_cases:
  "(wasBuilt tb \<longleftrightarrow> (\<exists>a b. tb = SetTimebounds a b)) \<and>
   wasBuilt (SetTimeout now a t) \<and> wasBuilt (SetNoTimeout a) \<and>
   (\<not> wasBuilt tb \<longrightarrow> Validate tb = Some err_not_constructed) \<and>
   (wasBuilt tb \<and> sint (tb_MinTime tb) < 0 \<longrightarrow> Validate tb = Some err_minTime_negative) \<and>
   (wasBuilt tb \<and> 0 \<le> sint (tb_MinTime tb) \<and> sint (tb_MaxTime tb) < 0 \<longrightarrow>
      Validate tb = Some err_maxTime_negative) \<and>
   (wasBuilt tb \<and> 0 \<le> sint (tb_MinTime tb) \<and> 0 \<le> sint (tb_MaxTime tb) \<and>
    sint (tb_MaxTime tb) \<noteq> 0 \<and> sint (tb_MaxTime tb) < sint (tb_MinTime tb) \<longrightarrow>
      Validate tb = Some err_maxTime_lt_minTime) \<and>
   (wasBuilt tb \<and> 0 \<le> sint (tb_MinTime tb) \<and>
    (sint (tb_MaxTime tb) = 0 \<or> sint (tb_MinTime tb) \<le> sint (tb_MaxTime tb)) \<longrightarrow>
      Validate tb = None)"
proof -
  have factory: "wasBuilt tb \<longleftrightarrow> (\<exists>a b. tb = SetTimebounds a b)"
  proof
    assume "wasBuilt tb"
    then have "tb = SetTimebounds (tb_MinTime tb) (tb_MaxTime tb)"
      by (simp add: SetTimebounds_def)
    then show "\<exists>a b. tb = SetTimebounds a b" by blast
  next
    assume "\<exists>a b. tb = SetTimebounds a b"
    then show "wasBuilt tb" by (auto simp: SetTimebounds_def)
  qed
  have zero: "sint (tb_MaxTime tb) = 0 \<longleftrightarrow> tb_MaxTime tb = 0"
    by (rule signed_eq_0_iff)
  show ?thesis
    unfolding factory [symmetric]
    by (auto simp: Validate_def TimeoutInfinite_def SetTimeout_def SetNoTimeout_def zero)
qed

theorem Validate_cases_witness:
  "Validate \<lparr>tb_MinTime = - 1, tb_MaxTime = 300, wasBuilt = False\<rparr> = Some err_not_constructed \<and>
   Validate (SetTimebounds (- 1) 300) = Some err_minTime_negative \<and>
   Validate (SetTimebounds 1 (- 300)) = Some err_maxTime_negative \<and>
   Validate (SetTimeout 1793561100 5555624032 300) = Some err_maxTime_lt_minTime \<and>
   Validate (SetTimeout 1793561100 1 300) = None \<and>
   Validate (SetNoTimeout 0) = None"
  using Validate_cases [of "\<lparr>tb_MinTime = - 1, tb_MaxTime = 300, wasBuilt = False\<rparr>"]
    Validate_cases [of "SetTimebounds (- 1) 300"]
    Validate_cases [of "SetTimebounds 1 (- 300)"]
    Validate_cases [of "SetTimeout 1793561100 5555624032 300"]
    Validate_cases [of "SetTimeout 1793561100 1 300"]
    Validate_cases [of "SetNoTimeout 0"]
  by (simp add: SetTimebounds_def SetTimeout_def SetNoTimeout_def TimeoutInfinite_def)

section \<open>The build pipeline\<close>

text \<open>
  Claim C2, as the code has it. A successful \<^verbatim>\<open>Build\<close> sets the wire timebounds to the
  transaction's \<^verbatim>\<open>MinTime\<close> and \<^verbatim>\<open>MaxTime\<close> if \<open>MinTime > 0\<close> or \<open>MaxTime > 0\<close>, and
  otherwise leaves the staged wire timebounds as they were. So on a transaction that was
  not built before (its staged timebounds are nil) timebounds are attached if and only if
  \<open>MinTime > 0\<close> or \<open>MaxTime > 0\<close>, and the wire body has none when both are 0; on a
  transaction that was built before, the timebounds of the earlier \<^verbatim>\<open>Build\<close> stay when
  both are 0 now. The two values are carried bit for bit (\<^verbatim>\<open>xdr.Uint64\<close> of an
  \<^verbatim>\<open>int64\<close>), so a negative one arrives as a large unsigned number.
\<close>

theorem Build_timebounds:
  assumes "Build lib tx = (tx', None)"
  shows "(0 < sint (MinTime tx) \<or> 0 < sint (MaxTime tx) \<longrightarrow>
            TimeBounds (xdrTransaction tx') =
              Some \<lparr>xdr_MinTime = MinTime tx, xdr_MaxTime = MaxTime tx\<rparr>) \<and>
         (\<not> (0 < sint (MinTime tx) \<or> 0 < sint (MaxTime tx)) \<longrightarrow>
            TimeBounds (xdrTransaction tx') = TimeBounds (xdrTransaction tx)) \<and>
         (TimeBounds (xdrTransaction tx) = None \<longrightarrow>
            (TimeBounds (xdrTransaction tx') \<noteq> None \<longleftrightarrow>
               0 < sint (MinTime tx) \<or> 0 < sint (MaxTime tx)) \<and>
            (MinTime tx = 0 \<and> MaxTime tx = 0 \<longrightarrow> TimeBounds (xdrTransaction tx') = None))"
proof -
  from assms have "TimeBounds (xdrTransaction tx') =
       (if 0 < sint (MinTime tx) \<or> 0 < sint (MaxTime tx)
        then Some \<lparr>xdr_MinTime = MinTime tx, xdr_MaxTime = MaxTime tx\<rparr>
        else TimeBounds (xdrTransaction tx))"
    by (rule Build_NoneD)
  then show ?thesis by auto
qed

text \<open>
  The claim as the specification states it, for every transaction, fails on a second
  \<^verbatim>\<open>Build\<close>: a transaction is built with \<^verbatim>\<open>MaxTime = 300\<close>, the caller then sets
  \<^verbatim>\<open>MaxTime\<close> to 0 and builds again. Both bounds are 0, and the wire body still carries
  the timebounds of the first build.
\<close>

theorem Build_timebounds_counterexample:
  "MinTime ((fst (Build example_xdr
       (example_tx 0 0 300 [allow_trust (credit_asset ''USD'') True])))\<lparr>MaxTime := 0\<rparr>) = 0 \<and>
   MaxTime ((fst (Build example_xdr
       (example_tx 0 0 300 [allow_trust (credit_asset ''USD'') True])))\<lparr>MaxTime := 0\<rparr>) = 0 \<and>
   snd (Build example_xdr ((fst (Build example_xdr
       (example_tx 0 0 300 [allow_trust (credit_asset ''USD'') True])))\<lparr>MaxTime := 0\<rparr>)) = None \<and>
   TimeBounds (xdrTransaction (fst (Build example_xdr ((fst (Build example_xdr
       (example_tx 0 0 300 [allow_trust (credit_asset ''USD'') True])))\<lparr>MaxTime := 0\<rparr>))))
     = Some \<lparr>xdr_MinTime = 0, xdr_MaxTime = 300\<rparr>"
  by (simp add: Build_eval example_defs)

theorem Build_timebounds_witness:
  "snd (Build example_xdr (example_tx 0 0 300 [allow_trust (credit_asset ''USD'') True])) = None \<and>
   TimeBounds (xdrTransaction
       (fst (Build example_xdr (example_tx 0 0 300 [allow_trust (credit_asset ''USD'') True]))))
     = Some \<lparr>xdr_MinTime = 0, xdr_MaxTime = 300\<rparr> \<and>
   snd (Build example_xdr (example_tx 0 0 0 [allow_trust (credit_asset ''USD'') True])) = None \<and>
   TimeBounds (xdrTransaction
       (fst (Build example_xdr (example_tx 0 0 0 [allow_trust (credit_asset ''USD'') True]))))
     = None \<and>
   snd (Build example_xdr ((fst (Build example_xdr
       (example_tx 0 0 300 [allow_trust (credit_asset ''USD'') True])))\<lparr>MaxTime := 0\<rparr>)) = None \<and>
   TimeBounds (xdrTransaction (fst (Build example_xdr ((fst (Build example_xdr
       (example_tx 0 0 300 [allow_trust (credit_asset ''USD'') True])))\<lparr>MaxTime := 0\<rparr>))))
     = TimeBounds (xdrTransaction
         (fst (Build example_xdr (example_tx 0 0 300 [allow_trust (credit_asset ''USD'') True]))))"
proof -
  let ?ops = "[allow_trust (credit_asset ''USD'') True]"
  let ?again = "(fst (Build example_xdr (example_tx 0 0 300 ?ops)))\<lparr>MaxTime := 0\<rparr>"
  have a: "snd (Build example_xdr (example_tx 0 0 300 ?ops)) = None"
    and b: "snd (Build example_xdr (example_tx 0 0 0 ?ops)) = None"
    by (simp_all add: Build_error AllowTrust_BuildXDR_def example_defs)
  have c: "snd (Build example_xdr ?again) = None"
    by (simp add: Build_eval example_defs)
  have fresh: "TimeBounds (xdrTransaction (example_tx 0 mn mx ?ops)) = None" for mn mx
    by (simp add: example_tx_def)
  have times: "MinTime (example_tx 0 mn mx ?ops) = mn" "MaxTime (example_tx 0 mn mx ?ops) = mx"
    for mn mx
    by (simp_all add: example_tx_def)
  have zero: "MinTime ?again = 0" "MaxTime ?again = 0"
    "xdrTransaction ?again = xdrTransaction (fst (Build example_xdr (example_tx 0 0 300 ?ops)))"
    by (simp_all add: Build_eval example_defs)
  from a b c fresh
    Build_timebounds [OF surjective_pairing [of "Build example_xdr (example_tx 0 0 300 ?ops)",
        unfolded a]]
    Build_timebounds [OF surjective_pairing [of "Build example_xdr (example_tx 0 0 0 ?ops)",
        unfolded b]]
    Build_timebounds [OF surjective_pairing [of "Build example_xdr ?again", unfolded c]]
  show ?thesis by (simp add: times zero)
qed

text \<open>
  Claim C6, as the code has it. A successful \<^verbatim>\<open>Build\<close> appends the wire conversions of
  the supplied operations, one for one and in the order they were supplied, to the
  operations that are already staged. So on a transaction that was not built before (no
  operation is staged yet) the operations of the wire body are exactly those conversions;
  on a transaction on which \<^verbatim>\<open>Build\<close> ran before, the operations staged by the earlier
  run come first.
\<close>

theorem Build_operations_in_order:
  assumes "Build lib tx = (tx', None)"
  shows "(\<exists>xs. map Inr xs = map (BuildXDR lib) (Operations tx) \<and>
            xdr_Operations (xdrTransaction tx') = xdr_Operations (xdrTransaction tx) @ xs) \<and>
         (xdr_Operations (xdrTransaction tx) = [] \<longrightarrow>
            map Inr (xdr_Operations (xdrTransaction tx')) = map (BuildXDR lib) (Operations tx))"
proof -
  from assms obtain xs where
    "map (BuildXDR lib) (Operations tx) = map Inr xs"
    "xdr_Operations (xdrTransaction tx') = xdr_Operations (xdrTransaction tx) @ xs"
    by (rule Build_NoneD)
  then show ?thesis by auto
qed

text \<open>
  The claim as the specification states it, for every transaction, fails on a second
  \<^verbatim>\<open>Build\<close>: a transaction with one operation is built twice, and the wire body holds
  the conversion of the operation twice.
\<close>

theorem Build_operations_in_order_counterexample:
  "Operations (fst (Build example_xdr
       (example_tx 0 0 0 [allow_trust (credit_asset ''USD'') True])))
     = [allow_trust (credit_asset ''USD'') True] \<and>
   snd (Build example_xdr (fst (Build example_xdr
       (example_tx 0 0 0 [allow_trust (credit_asset ''USD'') True])))) = None \<and>
   map (op_Asset \<circ> Body) (xdr_Operations (xdrTransaction (fst (Build example_xdr
       (fst (Build example_xdr
         (example_tx 0 0 0 [allow_trust (credit_asset ''USD'') True])))))))
     = [''USD'', ''USD''] \<and>
   length (xdr_Operations (xdrTransaction (fst (Build example_xdr
       (fst (Build example_xdr
         (example_tx 0 0 0 [allow_trust (credit_asset ''USD'') True])))))))
     \<noteq> length (Operations (fst (Build example_xdr
         (example_tx 0 0 0 [allow_trust (credit_asset ''USD'') True]))))"
  by (simp add: Build_eval example_defs)

theorem Build_operations_in_order_witness:
  "snd (Build example_xdr
          (example_tx 0 0 0 [allow_trust (credit_asset ''USD'') True,
                             allow_trust (credit_asset ''EUR'') False,
                             allow_trust (credit_asset ''USD'') True])) = None \<and>
   map (op_Asset \<circ> Body) (xdr_Operations (xdrTransaction (fst (Build example_xdr
          (example_tx 0 0 0 [allow_trust (credit_asset ''USD'') True,
                             allow_trust (credit_asset ''EUR'') False,
                             allow_trust (credit_asset ''USD'') True])))))
     = [''USD'', ''EUR'', ''USD''] \<and>
   snd (Build example_xdr
          ((fst (Build example_xdr (example_tx 0 0 0 [allow_trust (credit_asset ''USD'') True])))
             \<lparr>Operations := [allow_trust (credit_asset ''EUR'') False]\<rparr>)) = None \<and>
   map (op_Asset \<circ> Body) (xdr_Operations (xdrTransaction (fst (Build example_xdr
          ((fst (Build example_xdr (example_tx 0 0 0 [allow_trust (credit_asset ''USD'') True])))
             \<lparr>Operations := [allow_trust (credit_asset ''EUR'') False]\<rparr>)))))
     = [''USD'', ''EUR'']"
proof -
  let ?tx = "example_tx 0 0 0 [allow_trust (credit_asset ''USD'') True,
                             allow_trust (credit_asset ''EUR'') False,
                             allow_trust (credit_asset ''USD'') True]"
  let ?usd = "\<lparr>op_SourceAccount = None,
         Body = \<lparr>op_Trustor = example_trustor, op_Asset = ''USD'', op_Authorize = True\<rparr>\<rparr>"
  let ?eur = "\<lparr>op_SourceAccount = None,
         Body = \<lparr>op_Trustor = example_trustor, op_Asset = ''EUR'', op_Authorize = False\<rparr>\<rparr>"
  let ?again = "(fst (Build example_xdr
         (example_tx 0 0 0 [allow_trust (credit_asset ''USD'') True])))
             \<lparr>Operations := [allow_trust (credit_asset ''EUR'') False]\<rparr>"
  have a: "snd (Build example_xdr ?tx) = None"
    by (simp add: Build_error AllowTrust_BuildXDR_def example_defs)
  have b: "snd (Build example_xdr ?again) = None"
    by (simp add: Build_eval example_defs)
  have fresh: "xdr_Operations (xdrTransaction ?tx) = []"
    by (simp add: example_tx_def)
  have staged: "xdr_Operations (xdrTransaction ?again) = [?usd]"
    by (simp add: Build_eval example_defs)
  have "map Inr (xdr_Operations (xdrTransaction (fst (Build example_xdr ?tx))))
          = map (BuildXDR example_xdr) (Operations ?tx)"
    using Build_operations_in_order [OF surjective_pairing [of "Build example_xdr ?tx",
        unfolded a]] fresh by simp
  also have "\<dots> = map Inr [?usd, ?eur, ?usd]"
    by (simp add: AllowTrust_BuildXDR_def example_defs)
  finally have first: "xdr_Operations (xdrTransaction (fst (Build example_xdr ?tx))) =
      [?usd, ?eur, ?usd]"
    by (simp only: inj_map_eq_map [OF inj_Inr])
  from Build_operations_in_order [OF surjective_pairing [of "Build example_xdr ?again",
        unfolded b]]
  obtain xs where xs: "map Inr xs = map (BuildXDR example_xdr) (Operations ?again)"
    "xdr_Operations (xdrTransaction (fst (Build example_xdr ?again))) =
       xdr_Operations (xdrTransaction ?again) @ xs"
    by blast
  have "map (BuildXDR example_xdr) (Operations ?again) = map Inr [?eur]"
    by (simp add: AllowTrust_BuildXDR_def example_defs)
  with xs(1) have "xs = [?eur]"
    by (simp only: inj_map_eq_map [OF inj_Inr])
  with xs(2) staged have second:
    "xdr_Operations (xdrTransaction (fst (Build example_xdr ?again))) = [?usd, ?eur]"
    by simp
  from a b first second show ?thesis by simp
qed

text \<open>
  Claim C10. \<^verbatim>\<open>Build\<close> does not look at the values of the timebounds to decide
  whether it fails: whenever the sequence number is obtained, every operation converts
  and the memo, if there is one, converts, \<^verbatim>\<open>Build\<close> succeeds, whatever \<^verbatim>\<open>MinTime\<close>
  and \<^verbatim>\<open>MaxTime\<close> are (negative, or the maximum below the minimum); and the error
  \<^verbatim>\<open>Build\<close> returns is the same for all values of the two fields.
\<close>

theorem Build_ignores_timebounds:
  "(snd (IncrementSequenceNumber (SourceAccount tx) (self (SourceAccount tx))) = Inr seqnum \<and>
    (\<forall>op \<in> set (Operations tx). \<not> isl (BuildXDR lib op)) \<and>
    (case Memo tx of None \<Rightarrow> True | Some m \<Rightarrow> \<not> isl (memo_ToXDR m))
      \<longrightarrow> snd (Build lib tx) = None) \<and>
   snd (Build lib (tx\<lparr>MinTime := minTime, MaxTime := maxTime\<rparr>)) = snd (Build lib tx)"
proof (intro conjI impI)
  assume "snd (IncrementSequenceNumber (SourceAccount tx) (self (SourceAccount tx))) = Inr seqnum \<and>
    (\<forall>op \<in> set (Operations tx). \<not> isl (BuildXDR lib op)) \<and>
    (case Memo tx of None \<Rightarrow> True | Some m \<Rightarrow> \<not> isl (memo_ToXDR m))"
  then show "snd (Build lib tx) = None"
    using Build_success [OF _ all_converted] by blast
next
  show "snd (Build lib (tx\<lparr>MinTime := minTime, MaxTime := maxTime\<rparr>)) = snd (Build lib tx)"
    by (simp add: Build_error cong: sum.case_cong option.case_cong)
qed

theorem Build_ignores_timebounds_witness:
  "Validate (SetTimebounds (- 1) 300) = Some err_minTime_negative \<and>
   snd (Build example_xdr (example_tx 0 (- 1) 300 [allow_trust (credit_asset ''USD'') True])) = None \<and>
   Validate (SetTimebounds 5555624032 300) = Some err_maxTime_lt_minTime \<and>
   snd (Build example_xdr (example_tx 0 5555624032 300 [allow_trust (credit_asset ''USD'') True]))
     = None"
proof -
  let ?ops = "[allow_trust (credit_asset ''USD'') True]"
  have pre: "snd (IncrementSequenceNumber (SourceAccount (example_tx 0 mn mx ?ops))
                 (self (SourceAccount (example_tx 0 mn mx ?ops)))) = Inr 9605939170639898 \<and>
      (\<forall>op \<in> set (Operations (example_tx 0 mn mx ?ops)). \<not> isl (BuildXDR example_xdr op)) \<and>
      (case Memo (example_tx 0 mn mx ?ops) of None \<Rightarrow> True | Some m \<Rightarrow> \<not> isl (memo_ToXDR m))"
    for mn mx
    by (simp add: AllowTrust_BuildXDR_def example_defs)
  have v: "Validate (SetTimebounds (- 1) 300) = Some err_minTime_negative"
    "Validate (SetTimebounds 5555624032 300) = Some err_maxTime_lt_minTime"
    by (simp_all add: Validate_def SetTimebounds_def TimeoutInfinite_def)
  from v pre
    Build_ignores_timebounds [of "example_tx 0 (- 1) 300 ?ops" 9605939170639898 example_xdr]
    Build_ignores_timebounds [of "example_tx 0 5555624032 300 ?ops" 9605939170639898 example_xdr]
  show ?thesis by blast
qed

section \<open>The fee policy\<close>

text \<open>
  Claim C1, as the code has it. The fee a caller can set is \<^verbatim>\<open>BaseFee\<close>, and it is a
  fee for each operation: for a transaction that was not built before, with a non-zero
  \<^verbatim>\<open>BaseFee\<close>, the wire fee after a successful \<^verbatim>\<open>Build\<close> is \<^verbatim>\<open>BaseFee\<close> times the
  number of operations, cut to 32 bits. What the fee policy never overwrites is a wire fee
  that is already non-zero when \<^verbatim>\<open>Build\<close> starts: that one is kept as it is, whatever
  the number of operations.
\<close>

theorem Build_explicit_fee:
  assumes "Build lib tx = (tx', None)"
  shows "(Fee (xdrTransaction tx) \<noteq> 0 \<longrightarrow>
            Fee (xdrTransaction tx') = Fee (xdrTransaction tx)) \<and>
         (Fee (xdrTransaction tx) = 0 \<and> xdr_Operations (xdrTransaction tx) = [] \<and>
          BaseFee tx \<noteq> 0 \<longrightarrow>
            unat (Fee (xdrTransaction tx')) =
              (unat (BaseFee tx) * length (Operations tx)) mod 2 ^ 32)"
proof -
  from assms obtain xs where
    conv: "map (BuildXDR lib) (Operations tx) = map Inr xs" and
    fee: "Fee (xdrTransaction tx') =
       (if Fee (xdrTransaction tx) = 0
        then Uint32_product (if BaseFee tx = 0 then 100 else BaseFee tx)
               (length (xdr_Operations (xdrTransaction tx) @ xs))
        else Fee (xdrTransaction tx))"
    by (rule Build_NoneD)
  from conv have "length xs = length (Operations tx)"
    by (metis length_map)
  with fee show ?thesis
    by (simp add: unat_Uint32_product)
qed

text \<open>
  The claim as the specification states it fails: a caller sets the fee 200 on a
  transaction of two operations, and the wire fee is 400.
\<close>

theorem Build_explicit_fee_counterexample:
  "BaseFee (example_tx 200 0 0 [allow_trust (credit_asset ''USD'') True,
                                allow_trust (credit_asset ''EUR'') True]) = 200 \<and>
   snd (Build example_xdr
          (example_tx 200 0 0 [allow_trust (credit_asset ''USD'') True,
                               allow_trust (credit_asset ''EUR'') True])) = None \<and>
   Fee (xdrTransaction (fst (Build example_xdr
          (example_tx 200 0 0 [allow_trust (credit_asset ''USD'') True,
                               allow_trust (credit_asset ''EUR'') True])))) = 400 \<and>
   Fee (xdrTransaction (fst (Build example_xdr
          (example_tx 200 0 0 [allow_trust (credit_asset ''USD'') True,
                               allow_trust (credit_asset ''EUR'') True]))))
     \<noteq> BaseFee (example_tx 200 0 0 [allow_trust (credit_asset ''USD'') True,
                                      allow_trust (credit_asset ''EUR'') True])"
  by (simp add: Build_eval example_defs)

theorem Build_explicit_fee_witness:
  "snd (Build example_xdr
          (example_tx 200 0 0 [allow_trust (credit_asset ''USD'') True,
                               allow_trust (credit_asset ''EUR'') True])) = None \<and>
   unat (Fee (xdrTransaction (fst (Build example_xdr
          (example_tx 200 0 0 [allow_trust (credit_asset ''USD'') True,
                               allow_trust (credit_asset ''EUR'') True]))))) = 400 \<and>
   snd (Build example_xdr
          ((example_tx 200 0 0 [allow_trust (credit_asset ''USD'') True,
                                allow_trust (credit_asset ''EUR'') True])
             \<lparr>xdrTransaction :=
                \<lparr>xdr_SourceAccount = [], Fee = 250, SeqNum = 0, TimeBounds = None,
                 xdr_Memo = [], xdr_Operations = []\<rparr>\<rparr>)) = None \<and>
   Fee (xdrTransaction (fst (Build example_xdr
          ((example_tx 200 0 0 [allow_trust (credit_asset ''USD'') True,
                                allow_trust (credit_asset ''EUR'') True])
             \<lparr>xdrTransaction :=
                \<lparr>xdr_SourceAccount = [], Fee = 250, SeqNum = 0, TimeBounds = None,
                 xdr_Memo = [], xdr_Operations = []\<rparr>\<rparr>)))) = 250"
proof -
  let ?tx = "example_tx 200 0 0 [allow_trust (credit_asset ''USD'') True,
                                allow_trust (credit_asset ''EUR'') True]"
  let ?paid = "?tx\<lparr>xdrTransaction :=
                \<lparr>xdr_SourceAccount = [], Fee = 250, SeqNum = 0, TimeBounds = None,
                 xdr_Memo = [], xdr_Operations = []\<rparr>\<rparr>"
  have a: "snd (Build example_xdr ?tx) = None" and b: "snd (Build example_xdr ?paid) = None"
    by (simp_all add: Build_error AllowTrust_BuildXDR_def example_defs)
  have "unat (Fee (xdrTransaction (fst (Build example_xdr ?tx)))) = 400"
    using Build_explicit_fee [OF surjective_pairing [of "Build example_xdr ?tx", unfolded a]]
    by (simp add: example_tx_def)
  moreover have "Fee (xdrTransaction (fst (Build example_xdr ?paid))) = 250"
    using Build_explicit_fee [OF surjective_pairing [of "Build example_xdr ?paid", unfolded b]]
    by (simp add: example_tx_def)
  ultimately show ?thesis using a b by simp
qed

text \<open>
  Claim C5, as the code has it. For a transaction that was not built before and on which
  no fee is set (\<^verbatim>\<open>BaseFee\<close> and the wire fee are 0), a successful \<^verbatim>\<open>Build\<close> sets the
  base fee to 100 and the wire fee to 100 times the number \<open>N\<close> of operations in 32-bit
  arithmetic: the wire fee is \<open>100 * N mod 2 ^ 32\<close>, which is \<open>100 * N\<close> as long as
  \<open>N \<le> 42949672\<close>.
\<close>

theorem Build_default_fee:
  assumes "Build lib tx = (tx', None)"
      and "BaseFee tx = 0"
      and "Fee (xdrTransaction tx) = 0"
      and "xdr_Operations (xdrTransaction tx) = []"
  shows "BaseFee tx' = 100 \<and>
         unat (Fee (xdrTransaction tx')) = (100 * length (Operations tx)) mod 2 ^ 32 \<and>
         (length (Operations tx) \<le> 42949672 \<longrightarrow>
            unat (Fee (xdrTransaction tx')) = 100 * length (Operations tx))"
proof -
  from assms(1) obtain xs where
    conv: "map (BuildXDR lib) (Operations tx) = map Inr xs" and
    fee: "Fee (xdrTransaction tx') =
       (if Fee (xdrTransaction tx) = 0
        then Uint32_product (if BaseFee tx = 0 then 100 else BaseFee tx)
               (length (xdr_Operations (xdrTransaction tx) @ xs))
        else Fee (xdrTransaction tx))" and
    base: "BaseFee tx' = (if BaseFee tx = 0 then 100 else BaseFee tx)"
    by (rule Build_NoneD)
  from conv have "length xs = length (Operations tx)"
    by (metis length_map)
  with fee assms(2-4) have
    wire: "unat (Fee (xdrTransaction tx')) = (100 * length (Operations tx)) mod 2 ^ 32"
    by (simp add: unat_Uint32_product)
  have "(100 * length (Operations tx)) mod 2 ^ 32 = 100 * length (Operations tx)"
    if "length (Operations tx) \<le> 42949672"
    using that by simp
  with wire base assms(2) show ?thesis by simp
qed

text \<open>
  The claim as the specification states it fails where the product leaves 32 bits: with
  42949673 operations the wire fee is 4.
\<close>

theorem Build_default_fee_counterexample:
  "BaseFee (example_tx 0 0 0 (replicate 42949673 (allow_trust (credit_asset ''USD'') True))) = 0 \<and>
   length (Operations
     (example_tx 0 0 0 (replicate 42949673 (allow_trust (credit_asset ''USD'') True)))) = 42949673 \<and>
   snd (Build example_xdr
     (example_tx 0 0 0 (replicate 42949673 (allow_trust (credit_asset ''USD'') True)))) = None \<and>
   unat (Fee (xdrTransaction (fst (Build example_xdr
     (example_tx 0 0 0 (replicate 42949673 (allow_trust (credit_asset ''USD'') True))))))) = 4 \<and>
   unat (Fee (xdrTransaction (fst (Build example_xdr
     (example_tx 0 0 0 (replicate 42949673 (allow_trust (credit_asset ''USD'') True)))))))
     \<noteq> 100 * length (Operations
         (example_tx 0 0 0 (replicate 42949673 (allow_trust (credit_asset ''USD'') True))))"
proof -
  let ?op = "allow_trust (credit_asset ''USD'') True"
  let ?x = "\<lparr>op_SourceAccount = None,
      Body = \<lparr>op_Trustor = example_trustor, op_Asset = ''USD'', op_Authorize = True\<rparr>\<rparr>"
  have conv: "map (BuildXDR example_xdr) (Operations (example_tx 0 0 0 (replicate n ?op))) =
      map Inr (replicate n ?x)" for n
    by (simp add: AllowTrust_BuildXDR_def example_defs)
  have ok: "snd (Build example_xdr (example_tx 0 0 0 (replicate n ?op))) = None" for n
    by (rule Build_success [OF _ conv]) (simp_all add: example_defs)
  have "unat (Fee (xdrTransaction (fst (Build example_xdr
          (example_tx 0 0 0 (replicate n ?op)))))) = (100 * n) mod 2 ^ 32" for n
  proof -
    obtain xs where
      "map (BuildXDR example_xdr) (Operations (example_tx 0 0 0 (replicate n ?op))) = map Inr xs"
      "Fee (xdrTransaction (fst (Build example_xdr (example_tx 0 0 0 (replicate n ?op))))) =
         (if Fee (xdrTransaction (example_tx 0 0 0 (replicate n ?op))) = 0
          then Uint32_product
                 (if BaseFee (example_tx 0 0 0 (replicate n ?op)) = 0 then 100
                  else BaseFee (example_tx 0 0 0 (replicate n ?op)))
                 (length (xdr_Operations (xdrTransaction (example_tx 0 0 0 (replicate n ?op)))
                    @ xs))
          else Fee (xdrTransaction (example_tx 0 0 0 (replicate n ?op))))"
      by (rule Build_NoneD [OF surjective_pairing
            [of "Build example_xdr (example_tx 0 0 0 (replicate n ?op))", unfolded ok]])
    moreover from this(1) have "length xs = n"
      by (metis conv length_map length_replicate)
    ultimately show ?thesis
      by (simp add: example_tx_def unat_Uint32_product)
  qed
  from this [of 42949673] ok [of 42949673] show ?thesis
    by (simp add: example_tx_def)
qed

theorem Build_default_fee_witness:
  "snd (Build example_xdr
          (example_tx 0 0 0 [allow_trust (credit_asset ''USD'') True,
                             allow_trust (credit_asset ''EUR'') True,
                             allow_trust (credit_asset ''USD'') False])) = None \<and>
   unat (Fee (xdrTransaction (fst (Build example_xdr
          (example_tx 0 0 0 [allow_trust (credit_asset ''USD'') True,
                             allow_trust (credit_asset ''EUR'') True,
                             allow_trust (credit_asset ''USD'') False]))))) = 300"
proof -
  let ?tx = "example_tx 0 0 0 [allow_trust (credit_asset ''USD'') True,
                             allow_trust (credit_asset ''EUR'') True,
                             allow_trust (credit_asset ''USD'') False]"
  have a: "snd (Build example_xdr ?tx) = None"
    by (simp add: Build_error AllowTrust_BuildXDR_def example_defs)
  have fresh: "BaseFee ?tx = 0" "Fee (xdrTransaction ?tx) = 0"
    "xdr_Operations (xdrTransaction ?tx) = []"
    by (simp_all add: example_tx_def)
  from Build_default_fee [OF surjective_pairing [of "Build example_xdr ?tx", unfolded a] fresh]
  have "unat (Fee (xdrTransaction (fst (Build example_xdr ?tx)))) = 300"
    by (simp add: example_tx_def)
  with a show ?thesis by simp
qed

section \<open>Failing operations\<close>

text \<open>
  Claim C3, as the code has it. When the sequence number is obtained and the operation
  list holds an operation whose wire conversion fails, \<^verbatim>\<open>Build\<close> aborts at the first
  such operation: the operations before it are staged, no timebounds, memo or fee is set,
  and the error wraps the error of the operation under a message that names the kind of
  the operation (its Go type, as \<^verbatim>\<open>%T\<close> prints it). The error does not name the
  position of the operation.
\<close>

theorem Build_operation_failure:
  assumes "snd (IncrementSequenceNumber (SourceAccount tx) (self (SourceAccount tx))) = Inr seqnum"
      and "Operations tx = pre @ op # rest"
      and "\<forall>p \<in> set pre. \<not> isl (BuildXDR lib p)"
      and "BuildXDR lib op = Inl e"
  shows "snd (Build lib tx) =
           Some (Wrap e (''Failed to build operation '' @ typeName op)) \<and>
         map_option Error (snd (Build lib tx)) =
           Some (''Failed to build operation '' @ typeName op @ '': '' @ Error e) \<and>
         xdr_Operations (xdrTransaction (fst (Build lib tx))) =
           xdr_Operations (xdrTransaction tx) @ map (\<lambda>p. projr (BuildXDR lib p)) pre \<and>
         TimeBounds (xdrTransaction (fst (Build lib tx))) = TimeBounds (xdrTransaction tx) \<and>
         xdr_Memo (xdrTransaction (fst (Build lib tx))) = xdr_Memo (xdrTransaction tx) \<and>
         Fee (xdrTransaction (fst (Build lib tx))) = Fee (xdrTransaction tx)"
proof -
  obtain s where incr:
    "IncrementSequenceNumber (SourceAccount tx) (self (SourceAccount tx)) = (s, Inr seqnum)"
    using assms(1)
    by (cases "IncrementSequenceNumber (SourceAccount tx) (self (SourceAccount tx))") simp
  have loop: "buildOperations lib (Operations tx) (xdr_Operations (xdrTransaction tx)) =
      (xdr_Operations (xdrTransaction tx) @ map (\<lambda>p. projr (BuildXDR lib p)) pre,
       Some (Wrap e (''Failed to build operation '' @ typeName op)))"
    unfolding assms(2)
    by (rule buildOperations_failure [OF all_converted [OF assms(3)] assms(4)])
  from incr loop show ?thesis
    by (simp add: Build_def Let_def split: sum.splits)
qed

text \<open>
  The same failing operation at position 0 of one transaction and at position 1 of another
  gives the same error: nothing in it tells the position.
\<close>

theorem Build_operation_failure_counterexample:
  "isl (BuildXDR example_xdr (allow_trust native_asset True)) \<and>
   \<not> isl (BuildXDR example_xdr (allow_trust (credit_asset ''USD'') True)) \<and>
   snd (Build example_xdr (example_tx 0 0 0 [allow_trust native_asset True])) =
     Some (Wrap (New ''Trustline doesn't exist for a native (XLM) asset'')
             ''Failed to build operation *txnbuild.AllowTrust'') \<and>
   snd (Build example_xdr
          (example_tx 0 0 0 [allow_trust (credit_asset ''USD'') True,
                             allow_trust native_asset True])) =
     Some (Wrap (New ''Trustline doesn't exist for a native (XLM) asset'')
             ''Failed to build operation *txnbuild.AllowTrust'') \<and>
   Error (Wrap (New ''Trustline doesn't exist for a native (XLM) asset'')
            ''Failed to build operation *txnbuild.AllowTrust'') =
     ''Failed to build operation *txnbuild.AllowTrust: Trustline doesn't exist for a native (XLM) asset''"
  by (simp add: Build_error AllowTrust_BuildXDR_def example_defs native_asset_def)

text \<open>
  The instance is the test \<^verbatim>\<open>TestPaymentFailsIfNoAssetSpecified\<close>: a payment without an
  asset, whose conversion fails with "You must specify an asset for payment".
\<close>

theorem Build_operation_failure_witness:
  "map_option Error (snd (Build example_xdr
       (example_tx 0 0 0
          [OtherOperation ''*txnbuild.Payment''
             (Inl (New ''You must specify an asset for payment''))]))) =
     Some ''Failed to build operation *txnbuild.Payment: You must specify an asset for payment'' \<and>
   snd (Build example_xdr
       (example_tx 0 0 0
          [allow_trust (credit_asset ''USD'') True,
           OtherOperation ''*txnbuild.Payment''
             (Inl (New ''You must specify an asset for payment'')),
           allow_trust (credit_asset ''EUR'') True])) =
     Some (Wrap (New ''You must specify an asset for payment'')
            ''Failed to build operation *txnbuild.Payment'') \<and>
   map (op_Asset \<circ> Body) (xdr_Operations (xdrTransaction (fst (Build example_xdr
       (example_tx 0 0 0
          [allow_trust (credit_asset ''USD'') True,
           OtherOperation ''*txnbuild.Payment''
             (Inl (New ''You must specify an asset for payment'')),
           allow_trust (credit_asset ''EUR'') True]))))) = [''USD'']"
proof -
  let ?pay = "OtherOperation ''*txnbuild.Payment''
             (Inl (New ''You must specify an asset for payment''))"
  let ?usd = "allow_trust (credit_asset ''USD'') True"
  let ?eur = "allow_trust (credit_asset ''EUR'') True"
  have incr: "snd (IncrementSequenceNumber (SourceAccount (example_tx 0 0 0 ops))
      (self (SourceAccount (example_tx 0 0 0 ops)))) = Inr 9605939170639898" for ops
    by (simp add: example_defs)
  have one: "Operations (example_tx 0 0 0 [?pay]) = [] @ ?pay # []"
    and three: "Operations (example_tx 0 0 0 [?usd, ?pay, ?eur]) = [?usd] @ ?pay # [?eur]"
    by (simp_all add: example_tx_def)
  have pre: "\<forall>p \<in> set []. \<not> isl (BuildXDR example_xdr p)"
    "\<forall>p \<in> set [?usd]. \<not> isl (BuildXDR example_xdr p)"
    by (simp_all add: AllowTrust_BuildXDR_def example_defs)
  have fails: "BuildXDR example_xdr ?pay = Inl (New ''You must specify an asset for payment'')"
    by simp
  from Build_operation_failure [OF incr one pre(1) fails]
    Build_operation_failure [OF incr three pre(2) fails]
  show ?thesis
    by (simp add: AllowTrust_BuildXDR_def example_defs)
qed

section \<open>The allow-trust operation\<close>

text \<open>
  Claim C9, as the code has it. The wire conversion of an allow-trust operation over the
  native asset fails and gives no wire body: with the native-asset error when the trustor
  address is valid, with the trustor-address error otherwise. With a valid trustor address
  and an asset that is not native it succeeds when the asset converts to its wire form,
  that wire form converts to an allow-trust asset, and the operation body is built; it
  fails with the wrapped error of the first of these three steps that fails.
\<close>

theorem AllowTrust_BuildXDR_cases:
  "(IsNative (Type at) \<longrightarrow> isl (AllowTrust_BuildXDR lib at)) \<and>
   (IsNative (Type at) \<and> \<not> isl (SetAddress lib (Trustor at)) \<longrightarrow>
      AllowTrust_BuildXDR lib at =
        Inl (New ''Trustline doesn't exist for a native (XLM) asset'')) \<and>
   (\<forall>err. SetAddress lib (Trustor at) = Inl err \<longrightarrow>
      AllowTrust_BuildXDR lib at = Inl (Wrap err ''Failed to set trustor address'')) \<and>
   (\<forall>trustor xdrAsset asset body.
      SetAddress lib (Trustor at) = Inr trustor \<and> \<not> IsNative (Type at) \<and>
      ToXDR (Type at) = Inr xdrAsset \<and>
      ToAllowTrustOpAsset lib xdrAsset (GetCode (Type at)) = Inr asset \<and>
      NewOperationBody lib OperationTypeAllowTrust
        \<lparr>op_Trustor = trustor, op_Asset = asset, op_Authorize = Authorize at\<rparr> = Inr body \<longrightarrow>
      AllowTrust_BuildXDR lib at = Inr \<lparr>op_SourceAccount = None, Body = body\<rparr>) \<and>
   (\<not> isl (SetAddress lib (Trustor at)) \<and> \<not> IsNative (Type at) \<longrightarrow>
      (\<forall>err. ToXDR (Type at) = Inl err \<longrightarrow>
         AllowTrust_BuildXDR lib at =
           Inl (Wrap err ''Can't convert asset for trustline to XDR'')) \<and>
      (\<forall>xdrAsset err. ToXDR (Type at) = Inr xdrAsset \<and>
         ToAllowTrustOpAsset lib xdrAsset (GetCode (Type at)) = Inl err \<longrightarrow>
         AllowTrust_BuildXDR lib at =
           Inl (Wrap err ''Can't convert asset for trustline to allow trust asset type'')) \<and>
      (\<forall>trustor xdrAsset asset err. SetAddress lib (Trustor at) = Inr trustor \<and>
         ToXDR (Type at) = Inr xdrAsset \<and>
         ToAllowTrustOpAsset lib xdrAsset (GetCode (Type at)) = Inr asset \<and>
         NewOperationBody lib OperationTypeAllowTrust
           \<lparr>op_Trustor = trustor, op_Asset = asset, op_Authorize = Authorize at\<rparr> = Inl err \<longrightarrow>
         AllowTrust_BuildXDR lib at = Inl (Wrap err ''Failed to build XDR OperationBody'')))"
  by (cases "SetAddress lib (Trustor at)") (auto simp: AllowTrust_BuildXDR_def)

text \<open>
  The claim as the specification states it fails: the trustor address is valid and the
  asset is not native, but the asset does not convert to its wire form, and the conversion
  of the operation fails.
\<close>

theorem AllowTrust_BuildXDR_counterexample:
  "SetAddress example_xdr example_trustor = Inr example_trustor \<and>
   \<not> IsNative unconvertible_asset \<and>
   AllowTrust_BuildXDR example_xdr
     \<lparr>Trustor = example_trustor, Type = unconvertible_asset, Authorize = True\<rparr> =
     Inl (Wrap (New ''invalid asset code'') ''Can't convert asset for trustline to XDR'')"
  by (simp add: AllowTrust_BuildXDR_def example_defs unconvertible_asset_def)

theorem AllowTrust_BuildXDR_witness:
  "AllowTrust_BuildXDR example_xdr
     \<lparr>Trustor = example_trustor, Type = native_asset, Authorize = True\<rparr> =
     Inl (New ''Trustline doesn't exist for a native (XLM) asset'') \<and>
   AllowTrust_BuildXDR example_xdr
     \<lparr>Trustor = [], Type = native_asset, Authorize = True\<rparr> =
     Inl (Wrap (New ''invalid address'') ''Failed to set trustor address'') \<and>
   AllowTrust_BuildXDR example_xdr
     \<lparr>Trustor = example_trustor, Type = credit_asset ''USD'', Authorize = True\<rparr> =
     Inr \<lparr>op_SourceAccount = None,
         Body = \<lparr>op_Trustor = example_trustor, op_Asset = ''USD'', op_Authorize = True\<rparr>\<rparr> \<and>
   AllowTrust_BuildXDR example_xdr
     \<lparr>Trustor = example_trustor, Type = credit_asset ''ABCDEFGHIJKLMNOP'', Authorize = True\<rparr> =
     Inl (Wrap (New ''Asset code length is invalid'')
            ''Can't convert asset for trustline to allow trust asset type'') \<and>
   AllowTrust_BuildXDR
     (example_xdr\<lparr>NewOperationBody := \<lambda>opType v. Inl (New ''invalid value'')\<rparr>)
     \<lparr>Trustor = example_trustor, Type = credit_asset ''USD'', Authorize = True\<rparr> =
     Inl (Wrap (New ''invalid value'') ''Failed to build XDR OperationBody'')"
  using
    AllowTrust_BuildXDR_cases [of "\<lparr>Trustor = example_trustor, Type = native_asset,
      Authorize = True\<rparr>" example_xdr]
    AllowTrust_BuildXDR_cases [of "\<lparr>Trustor = [], Type = native_asset,
      Authorize = True\<rparr>" example_xdr]
    AllowTrust_BuildXDR_cases [of "\<lparr>Trustor = example_trustor, Type = credit_asset ''USD'',
      Authorize = True\<rparr>" example_xdr]
    AllowTrust_BuildXDR_cases [of "\<lparr>Trustor = example_trustor,
      Type = credit_asset ''ABCDEFGHIJKLMNOP'', Authorize = True\<rparr>" example_xdr]
    AllowTrust_BuildXDR_cases [of "\<lparr>Trustor = example_trustor, Type = credit_asset ''USD'',
      Authorize = True\<rparr>"
      "example_xdr\<lparr>NewOperationBody := \<lambda>opType v. Inl (New ''invalid value'')\<rparr>"]
  by (simp add: example_defs native_asset_def)

section \<open>The signing pipeline\<close>



text \<open>
  Claim C8. Every successful \<^verbatim>\<open>Sign\<close> appends exactly one decorated signature, the one
  the key makes of the hash of the built body, to the signatures of the envelope, and
  leaves the built body as it was (a failing \<^verbatim>\<open>Sign\<close> leaves it too). Two successful
  calls with two keys append exactly the two signatures, the one of the first call before
  the one of the second.
\<close>

theorem Sign_appends_in_call_order:
  "(Sign c kp tx = (tx', None) \<longrightarrow>
      (\<exists>h sig. Hash c tx = Inr h \<and> SignDecorated c kp h = Inr sig \<and>
         signatures tx' = signatures tx @ [sig]) \<and>
      xdrTransaction tx' = xdrTransaction tx) \<and>
   (Sign c kp1 tx = (tx1, None) \<and> Sign c kp2 tx1 = (tx2, None) \<longrightarrow>
      (\<exists>h sig1 sig2. Hash c tx = Inr h \<and> SignDecorated c kp1 h = Inr sig1 \<and>
         SignDecorated c kp2 h = Inr sig2 \<and>
         signatures tx2 = signatures tx @ [sig1, sig2]) \<and>
      xdrTransaction tx2 = xdrTransaction tx) \<and>
   xdrTransaction (fst (Sign c kp tx)) = xdrTransaction tx"
proof (intro conjI impI)
  assume "Sign c kp tx = (tx', None)"
  then show "\<exists>h sig. Hash c tx = Inr h \<and> SignDecorated c kp h = Inr sig \<and>
         signatures tx' = signatures tx @ [sig]"
    by (rule Sign_NoneD) blast
next
  assume "Sign c kp tx = (tx', None)"
  then show "xdrTransaction tx' = xdrTransaction tx"
    by (rule Sign_NoneD)
next
  assume both: "Sign c kp1 tx = (tx1, None) \<and> Sign c kp2 tx1 = (tx2, None)"
  then obtain h sig1 where one: "Hash c tx = Inr h" "SignDecorated c kp1 h = Inr sig1"
    "signatures tx1 = signatures tx @ [sig1]" "xdrTransaction tx1 = xdrTransaction tx"
    "Network tx1 = Network tx"
    by (blast elim: Sign_NoneD)
  from both obtain h' sig2 where two: "Hash c tx1 = Inr h'" "SignDecorated c kp2 h' = Inr sig2"
    "signatures tx2 = signatures tx1 @ [sig2]" "xdrTransaction tx2 = xdrTransaction tx1"
    by (blast elim: Sign_NoneD)
  from one(1,4,5) two(1) have "h' = h"
    by (simp add: Hash_def)
  with one two show "\<exists>h sig1 sig2. Hash c tx = Inr h \<and> SignDecorated c kp1 h = Inr sig1 \<and>
         SignDecorated c kp2 h = Inr sig2 \<and> signatures tx2 = signatures tx @ [sig1, sig2]"
    by auto
  from one(4) two(4) show "xdrTransaction tx2 = xdrTransaction tx"
    by simp
next
  show "xdrTransaction (fst (Sign c kp tx)) = xdrTransaction tx"
    by (rule Sign_xdrTransaction)
qed

theorem Sign_appends_in_call_order_witness:
  "snd (Sign example_crypto [1, 2, 3, 4, 5]
      (fst (Build example_xdr (example_tx 0 0 0 [allow_trust (credit_asset ''USD'') True]))))
     = None \<and>
   signatures
     (fst (Sign example_crypto [1, 2, 3, 4, 5]
       (fst (Build example_xdr (example_tx 0 0 0 [allow_trust (credit_asset ''USD'') True])))))
     = [\<lparr>Hint = [1, 2, 3, 4], Signature = [1, 2, 3, 4, 5, 1]\<rparr>] \<and>
   snd (Sign example_crypto [5, 6, 7, 8, 9]
      (fst (Sign example_crypto [1, 2, 3, 4, 5]
        (fst (Build example_xdr (example_tx 0 0 0 [allow_trust (credit_asset ''USD'') True]))))))
     = None \<and>
   signatures
     (fst (Sign example_crypto [5, 6, 7, 8, 9]
       (fst (Sign example_crypto [1, 2, 3, 4, 5]
         (fst (Build example_xdr (example_tx 0 0 0 [allow_trust (credit_asset ''USD'') True])))))))
     = [\<lparr>Hint = [1, 2, 3, 4], Signature = [1, 2, 3, 4, 5, 1]\<rparr>,
        \<lparr>Hint = [5, 6, 7, 8], Signature = [5, 6, 7, 8, 9, 1]\<rparr>]"
proof -
  let ?built = "fst (Build example_xdr (example_tx 0 0 0 [allow_trust (credit_asset ''USD'') True]))"
  let ?one = "Sign example_crypto [1, 2, 3, 4, 5] ?built"
  let ?two = "Sign example_crypto [5, 6, 7, 8, 9] (fst ?one)"
  have a: "snd ?one = None" and b: "snd ?two = None"
    by (simp_all add: Sign_def Hash_def Let_def example_crypto_def split: option.splits)
  have started: "signatures ?built = []"
    by (simp add: signatures_def Build_xdrEnvelope example_tx_def)
  have hash: "Hash example_crypto ?built = Inr [1]"
    by (simp add: Hash_def Build_eval example_defs example_crypto_def)
  note inst = Sign_appends_in_call_order [where c = example_crypto and tx = ?built
      and kp = "[1, 2, 3, 4, 5]" and tx' = "fst ?one"
      and ?kp1.0 = "[1, 2, 3, 4, 5]" and ?tx1.0 = "fst ?one"
      and ?kp2.0 = "[5, 6, 7, 8, 9]" and ?tx2.0 = "fst ?two"]
  from inst a
  have "\<exists>h sig. Hash example_crypto ?built = Inr h \<and>
      SignDecorated example_crypto [1, 2, 3, 4, 5] h = Inr sig \<and>
      signatures (fst ?one) = signatures ?built @ [sig]"
    by (metis prod.collapse)
  with hash started have first: "signatures (fst ?one) =
      [\<lparr>Hint = [1, 2, 3, 4], Signature = [1, 2, 3, 4, 5, 1]\<rparr>]"
    by (auto simp: example_crypto_def)
  from inst a b
  have "\<exists>h sig1 sig2. Hash example_crypto ?built = Inr h \<and>
      SignDecorated example_crypto [1, 2, 3, 4, 5] h = Inr sig1 \<and>
      SignDecorated example_crypto [5, 6, 7, 8, 9] h = Inr sig2 \<and>
      signatures (fst ?two) = signatures ?built @ [sig1, sig2]"
    by (metis prod.collapse)
  with hash started have "signatures (fst ?two) =
      [\<lparr>Hint = [1, 2, 3, 4], Signature = [1, 2, 3, 4, 5, 1]\<rparr>,
       \<lparr>Hint = [5, 6, 7, 8], Signature = [5, 6, 7, 8, 9, 1]\<rparr>]"
    by (auto simp: example_crypto_def)
  with first a b show ?thesis by simp
qed

end
